theory Spec2Isabelle
  imports Complex_Main "HOL-Library.AList"
begin

section \<open>Data model\<close>

text \<open>
  The engine works on Python numbers. In the conflict detector they are modelled as real
  numbers, in idealised arithmetic: rounding, overflow and signed zeros are left out
  there, and what a division by zero yields in NumPy (a non-finite value and a warning,
  never an exception) is kept explicit. The arithmetic of the source itself, binary64
  floats and wrapping 64-bit integers, is modelled further down for the two functions of
  the geometry kernel.
\<close>

type_synonym Waypoint = "real \<times> real \<times> real"

text \<open>A waypoint dictionary \<open>{"x", "y", "z", "time"}\<close> as the loader validates it.\<close>

record waypoint =
  x :: real
  y :: real
  z :: real
  time :: real

record time_window =
  tw_start :: real
  tw_end :: real

record trajectory =
  waypoints :: "waypoint list"

record mission = trajectory +
  time_window :: time_window

text \<open>A schedule entry; \<open>drone_id\<close> is read with \<open>.get("drone_id", "unknown")\<close>.\<close>

record schedule = trajectory +
  drone_id :: "string option"

text \<open>Values stored in a conflict dictionary, and the dictionary in insertion order.\<close>

datatype pyval =
    PFloat real
  | PStr string
  | PIndex "nat \<times> nat"
  | PPoint "real \<times> real \<times> real"
  | PRange "real \<times> real"

type_synonym conflict = "(string \<times> pyval) list"

record safety_result =
  status :: string
  details :: "conflict list"

datatype py_error = ValueError

text \<open>The result of a NumPy scalar division: finite, or what a zero divisor gives.\<close>

datatype npfloat = Finite real | PosInf | NegInf | NaN

definition np_div :: "real \<Rightarrow> real \<Rightarrow> npfloat" where
  "np_div n m =
     (if m = 0 then (if n = 0 then NaN else if 0 < n then PosInf else NegInf)
      else Finite (n / m))"

text \<open>
  \<open>max(0.0, min(1.0, v))\<close> with Python's built-ins: \<open>min(1.0, v)\<close> is \<open>v\<close> only when
  \<open>v < 1.0\<close>, so \<open>nan\<close> and \<open>inf\<close> give \<open>1.0\<close>; \<open>max(0.0, -inf)\<close> is \<open>0.0\<close>.
\<close>

fun clamp01 :: "npfloat \<Rightarrow> real" where
  "clamp01 (Finite r) = max 0 (min 1 r)"
| "clamp01 PosInf = 1"
| "clamp01 NegInf = 0"
| "clamp01 NaN = 1"

section \<open>Geometry kernel\<close>

fun vsub :: "Waypoint \<Rightarrow> Waypoint \<Rightarrow> Waypoint" where
  "vsub (a1, a2, a3) (b1, b2, b3) = (a1 - b1, a2 - b2, a3 - b3)"

fun vadd :: "Waypoint \<Rightarrow> Waypoint \<Rightarrow> Waypoint" where
  "vadd (a1, a2, a3) (b1, b2, b3) = (a1 + b1, a2 + b2, a3 + b3)"

fun smul :: "real \<Rightarrow> Waypoint \<Rightarrow> Waypoint" where
  "smul k (a1, a2, a3) = (k * a1, k * a2, k * a3)"

fun np_dot :: "Waypoint \<Rightarrow> Waypoint \<Rightarrow> real" where
  "np_dot (a1, a2, a3) (b1, b2, b3) = a1 * b1 + a2 * b2 + a3 * b3"

fun np_norm :: "Waypoint \<Rightarrow> real" where
  "np_norm (a1, a2, a3) = sqrt (a1 * a1 + a2 * a2 + a3 * a3)"

text \<open>Lines 96-114: the two parameters before they are clamped.\<close>

definition closest_params ::
  "Waypoint \<Rightarrow> Waypoint \<Rightarrow> Waypoint \<Rightarrow> Waypoint \<Rightarrow> npfloat \<times> npfloat" where
  "closest_params p1 p2 q1 q2 =
     (let u = vsub p2 p1;
          v = vsub q2 q1;
          w = vsub p1 q1;
          a = np_dot u u;
          b = np_dot u v;
          c = np_dot v v;
          d = np_dot u w;
          e = np_dot v w;
          D = a * c - b * b
      in if D < 1 / 10 ^ 10
         then (Finite 0, if b > c then np_div d b else np_div e c)
         else (np_div (b * e - c * d) D, np_div (a * e - b * d) D))"

definition closest_distance_between_segments ::
  "Waypoint \<Rightarrow> Waypoint \<Rightarrow> Waypoint \<Rightarrow> Waypoint \<Rightarrow> real" where
  "closest_distance_between_segments p1 p2 q1 q2 =
     (let u = vsub p2 p1;
          v = vsub q2 q1;
          w = vsub p1 q1;
          (sc0, tc0) = closest_params p1 p2 q1 q2;
          sc = clamp01 sc0;
          tc = clamp01 tc0;
          dP = vsub (vadd w (smul sc u)) (smul tc v)
      in np_norm dP)"

definition interpolate_position :: "waypoint \<Rightarrow> waypoint \<Rightarrow> real \<Rightarrow> Waypoint" where
  "interpolate_position wp1 wp2 t =
     (let t1 = time wp1; t2 = time wp2
      in if t1 = t2 then (x wp1, y wp1, z wp1)
         else (let frac = clamp01 (np_div (t - t1) (t2 - t1))
               in (x wp1 + frac * (x wp2 - x wp1),
                   y wp1 + frac * (y wp2 - y wp1),
                   z wp1 + frac * (z wp2 - z wp1))))"

section \<open>Conflict detector\<close>

text \<open>Python's \<open>min\<close> and \<open>max\<close> over a generator: ValueError on an empty sequence.\<close>

fun py_min :: "real list \<Rightarrow> py_error + real" where
  "py_min [] = Inl ValueError"
| "py_min (v # vs) = Inr (fold min vs v)"

fun py_max :: "real list \<Rightarrow> py_error + real" where
  "py_max [] = Inl ValueError"
| "py_max (v # vs) = Inr (fold max vs v)"

definition get_drone_id :: "schedule \<Rightarrow> string" where
  "get_drone_id s = (case drone_id s of Some d \<Rightarrow> d | None \<Rightarrow> ''unknown'')"

definition position :: "waypoint \<Rightarrow> Waypoint" where
  "position wp = (x wp, y wp, z wp)"

text \<open>
  Lines 145-161, the body of the two nested loops for one index pair. The ranges are
  \<open>range(len(...) - 1)\<close>, so \<open>i + 1\<close> and \<open>j + 1\<close> are always in range.
\<close>

definition spatial_body ::
  "waypoint list \<Rightarrow> waypoint list \<Rightarrow> real \<Rightarrow> nat \<Rightarrow> nat \<Rightarrow> conflict list \<Rightarrow> conflict list" where
  "spatial_body mw sw safety_buffer i j conflicts =
     (let t1_m = time (mw ! i); t2_m = time (mw ! (i + 1));
          t1_s = time (sw ! j); t2_s = time (sw ! (j + 1))
      in if max t1_m t1_s \<le> min t2_m t2_s
         then (let p1 = position (mw ! i); p2 = position (mw ! (i + 1));
                   q1 = position (sw ! j); q2 = position (sw ! (j + 1));
                   dist = closest_distance_between_segments p1 p2 q1 q2
               in if dist < safety_buffer
                  then conflicts @
                    [[(''segment_mission'', PIndex (i, i + 1)),
                      (''segment_schedule'', PIndex (j, j + 1)),
                      (''distance'', PFloat dist),
                      (''location'', PPoint ((fst p1 + fst p2) / 2,
                          (fst (snd p1) + fst (snd p2)) / 2,
                          (snd (snd p1) + snd (snd p2)) / 2)),
                      (''time_range'', PRange (max t1_m t1_s, min t2_m t2_s))]]
                  else conflicts)
         else conflicts)"

text \<open>
  On naturals \<open>length ws - 1\<close> is 0 for the empty list, and \<open>range(-1)\<close> is empty too.
\<close>

definition check_spatial_conflict ::
  "mission \<Rightarrow> schedule \<Rightarrow> time_window \<Rightarrow> real \<Rightarrow> py_error + conflict list" where
  "check_spatial_conflict m s tw safety_buffer =
     (case py_min (map time (waypoints s)) of
        Inl err \<Rightarrow> Inl err
      | Inr schedule_start \<Rightarrow>
     (case py_max (map time (waypoints s)) of
        Inl err \<Rightarrow> Inl err
      | Inr schedule_end \<Rightarrow>
     (let t_start = tw_start tw; t_end = tw_end tw
      in if schedule_end < t_start \<or> schedule_start > t_end then Inr []
         else Inr (fold (\<lambda>i. fold (spatial_body (waypoints m) (waypoints s) safety_buffer i)
                                 [0..<length (waypoints s) - 1])
                     [0..<length (waypoints m) - 1] []))))"

text \<open>
  \<open>np.linspace(start, stop, num=10)\<close>: \<open>arange(10) * step + start\<close> with
  \<open>step = (stop - start) / 9\<close>, and the last entry set to \<open>stop\<close>.
\<close>

definition linspace10 :: "real \<Rightarrow> real \<Rightarrow> real list" where
  "linspace10 start stop =
     (map (\<lambda>k. real k * ((stop - start) / 9) + start) [0..<10])[9 := stop]"

text \<open>Rounding to the nearest integer, ties to the even one.\<close>

definition round_half_even :: "real \<Rightarrow> int" where
  "round_half_even r =
     (let f = \<lfloor>r\<rfloor>; d = r - of_int f
      in if d < 1 / 2 then f else if 1 / 2 < d then f + 1
         else if even f then f else f + 1)"

text \<open>\<open>round(v, 2)\<close>, on the real number \<open>v\<close>.\<close>

definition round2 :: "real \<Rightarrow> real" where
  "round2 v = of_int (round_half_even (v * 100)) / 100"

type_synonym temporal_state = "(real \<times> real \<times> real \<times> real) set \<times> conflict list"

text \<open>Lines 184-194, for the positions of one segment pair at the instant \<open>t\<close>.\<close>

definition temporal_emit ::
  "string \<Rightarrow> real \<Rightarrow> real \<Rightarrow> Waypoint \<Rightarrow> Waypoint \<Rightarrow> temporal_state \<Rightarrow> temporal_state" where
  "temporal_emit did safety_buffer t pos_m pos_s st =
     (let dist = np_norm (vsub pos_m pos_s)
      in if dist < safety_buffer
         then (let pos_key = (round2 (fst pos_m), round2 (fst (snd pos_m)),
                              round2 (snd (snd pos_m)), round2 t)
               in if pos_key \<notin> fst st
                  then (insert pos_key (fst st),
                        snd st @ [[(''time'', PFloat t),
                                   (''location'', PPoint pos_m),
                                   (''distance'', PFloat dist),
                                   (''drone_id'', PStr did)]])
                  else st)
         else st)"

text \<open>Lines 181-194: the loop over the schedule's segments.\<close>

definition temporal_inner ::
  "waypoint list \<Rightarrow> string \<Rightarrow> real \<Rightarrow> real \<Rightarrow> Waypoint \<Rightarrow> temporal_state \<Rightarrow> temporal_state" where
  "temporal_inner sw did safety_buffer t pos_m =
     fold (\<lambda>j st. if time (sw ! j) \<le> t \<and> t \<le> time (sw ! (j + 1))
                   then temporal_emit did safety_buffer t pos_m
                          (interpolate_position (sw ! j) (sw ! (j + 1)) t) st
                   else st)
       [0..<length sw - 1]"

text \<open>Lines 178-194: the loop over the mission's segments.\<close>

definition temporal_outer ::
  "waypoint list \<Rightarrow> waypoint list \<Rightarrow> string \<Rightarrow> real \<Rightarrow> real \<Rightarrow> temporal_state \<Rightarrow> temporal_state" where
  "temporal_outer mw sw did safety_buffer t =
     fold (\<lambda>i st. if time (mw ! i) \<le> t \<and> t \<le> time (mw ! (i + 1))
                   then temporal_inner sw did safety_buffer t
                          (interpolate_position (mw ! i) (mw ! (i + 1)) t) st
                   else st)
       [0..<length mw - 1]"

definition check_temporal_conflict ::
  "mission \<Rightarrow> schedule \<Rightarrow> time_window \<Rightarrow> real \<Rightarrow> py_error + conflict list" where
  "check_temporal_conflict m s tw safety_buffer =
     (let t_start = tw_start tw; t_end = tw_end tw
      in case py_min (map time (waypoints s)) of
           Inl err \<Rightarrow> Inl err
         | Inr schedule_start \<Rightarrow>
        (case py_max (map time (waypoints s)) of
           Inl err \<Rightarrow> Inl err
         | Inr schedule_end \<Rightarrow>
             if schedule_end < t_start \<or> schedule_start > t_end then Inr []
             else (let time_steps = linspace10 (max t_start schedule_start)
                                               (min t_end schedule_end)
                   in Inr (snd (fold (temporal_outer (waypoints m) (waypoints s)
                                        (get_drone_id s) safety_buffer)
                                  time_steps ({}, []))))))"

text \<open>Lines 203-207: the tags added to the records of one schedule.\<close>

definition tag_spatial :: "schedule \<Rightarrow> conflict \<Rightarrow> conflict" where
  "tag_spatial s sc =
     AList.update ''type'' (PStr ''spatial'')
       (AList.update ''drone_id'' (PStr (get_drone_id s)) sc)"

definition tag_temporal :: "conflict \<Rightarrow> conflict" where
  "tag_temporal tc = AList.update ''type'' (PStr ''temporal'') tc"

text \<open>Lines 200-208: the loop over the schedules; an exception leaves it.\<close>

fun safety_loop ::
  "mission \<Rightarrow> real \<Rightarrow> schedule list \<Rightarrow> conflict list \<Rightarrow> py_error + conflict list" where
  "safety_loop m safety_buffer [] conflicts = Inr conflicts"
| "safety_loop m safety_buffer (s # ss) conflicts =
     (case check_spatial_conflict m s (time_window m) safety_buffer of
        Inl err \<Rightarrow> Inl err
      | Inr spatial_conflicts \<Rightarrow>
     (case check_temporal_conflict m s (time_window m) safety_buffer of
        Inl err \<Rightarrow> Inl err
      | Inr temporal_conflicts \<Rightarrow>
          safety_loop m safety_buffer ss
            (conflicts @ (map (tag_spatial s) spatial_conflicts
                          @ map tag_temporal temporal_conflicts))))"

definition check_mission_safety ::
  "mission \<Rightarrow> schedule list \<Rightarrow> real \<Rightarrow> py_error + safety_result" where
  "check_mission_safety m schedules safety_buffer =
     (case safety_loop m safety_buffer schedules [] of
        Inl err \<Rightarrow> Inl err
      | Inr conflicts \<Rightarrow>
          Inr \<lparr>status = (if conflicts = [] then ''clear'' else ''conflict detected''),
               details = conflicts\<rparr>)"


section \<open>Notions used to state the properties\<close>

text \<open>
  The whole-trajectory prune of lines 141 and 171, on the span from the least to the
  greatest waypoint time: the span ends before the window starts or starts after it ends.
\<close>

definition span_outside_window :: "waypoint list \<Rightarrow> time_window \<Rightarrow> bool" where
  "span_outside_window sw tw \<longleftrightarrow>
     Max (set (map time sw)) < tw_start tw \<or> Min (set (map time sw)) > tw_end tw"

text \<open>
  The records of the segment pairs in iteration order: the mission's segment index
  outermost, the schedule's innermost, each pair giving one record or none.
\<close>

definition spatial_pairs :: "waypoint list \<Rightarrow> waypoint list \<Rightarrow> real \<Rightarrow> conflict list" where
  "spatial_pairs mw sw b =
     concat (map (\<lambda>i. concat (map (\<lambda>j. spatial_body mw sw b i j []) [0..<length sw - 1]))
                 [0..<length mw - 1])"

text \<open>Every record so far carries the given drone identifier.\<close>

definition has_drone_id :: "string \<Rightarrow> temporal_state \<Rightarrow> bool" where
  "has_drone_id did st \<longleftrightarrow> list_all (\<lambda>c. map_of c ''drone_id'' = Some (PStr did)) (snd st)"

text \<open>
  The deduplication key of a temporal record (line 186), read back from the record:
  its location and its time, each rounded to 2 decimals.
\<close>

definition conflict_key :: "conflict \<Rightarrow> (real \<times> real \<times> real \<times> real) option" where
  "conflict_key c =
     (case (map_of c ''location'', map_of c ''time'') of
        (Some (PPoint p), Some (PFloat t)) \<Rightarrow>
          Some (round2 (fst p), round2 (fst (snd p)), round2 (snd (snd p)), round2 t)
      | _ \<Rightarrow> None)"

text \<open>The set of seen keys holds exactly the keys of the records emitted so far.\<close>

definition keys_recorded :: "temporal_state \<Rightarrow> bool" where
  "keys_recorded st \<longleftrightarrow> Some ` fst st = conflict_key ` set (snd st)"

section \<open>Concrete inputs\<close>

text \<open>The scenario of the specification: two parallel flights 5 apart.\<close>

definition scenario_mission :: mission where
  "scenario_mission =
     \<lparr>waypoints = [\<lparr>x = 0, y = 0, z = 0, time = 0\<rparr>, \<lparr>x = 100, y = 0, z = 0, time = 10\<rparr>],
      time_window = \<lparr>tw_start = 0, tw_end = 10\<rparr>\<rparr>"

definition scenario_other :: schedule where
  "scenario_other =
     \<lparr>waypoints = [\<lparr>x = 0, y = 5, z = 0, time = 0\<rparr>, \<lparr>x = 100, y = 5, z = 0, time = 10\<rparr>],
      drone_id = Some ''other''\<rparr>"

text \<open>A drone with one waypoint, on the mission's path at the time the mission passes.\<close>

definition hover_other :: schedule where
  "hover_other = \<lparr>waypoints = [\<lparr>x = 50, y = 0, z = 0, time = 5\<rparr>], drone_id = Some ''hover''\<rparr>"

text \<open>The same flight as the mission's, after the mission's window has closed.\<close>

definition late_other :: schedule where
  "late_other =
     \<lparr>waypoints = [\<lparr>x = 0, y = 0, z = 0, time = 20\<rparr>, \<lparr>x = 100, y = 0, z = 0, time = 30\<rparr>],
      drone_id = None\<rparr>"



text \<open>
  A drone closing in on a hovering mission within 9 milliseconds: the ten sample
  instants round to only two distinct times.
\<close>

definition hover_mission :: mission where
  "hover_mission =
     \<lparr>waypoints = [\<lparr>x = 0, y = 0, z = 0, time = 0\<rparr>, \<lparr>x = 0, y = 0, z = 0, time = 10\<rparr>],
      time_window = \<lparr>tw_start = 0, tw_end = 10\<rparr>\<rparr>"

definition closing_other :: schedule where
  "closing_other =
     \<lparr>waypoints = [\<lparr>x = 0, y = 0, z = 9, time = 0\<rparr>, \<lparr>x = 0, y = 0, z = 0, time = 9 / 1000\<rparr>],
      drone_id = Some ''closing''\<rparr>"

section \<open>The first-match search of the specification\<close>








section \<open>Double-precision and 64-bit integer arithmetic\<close>

text \<open>
  Python floats and NumPy \<open>float64\<close> values are IEEE 754 binary64 numbers. A finite one
  is modelled by the real number it denotes (the two zeros are not told apart), an
  operation by the exact result rounded to the nearest binary64 number, ties to even:
  53 significant bits, least exponent \<open>-1022\<close> with gradual underflow, overflow to
  infinity from \<open>2 ^ 1024\<close> on.
\<close>

definition f64_round_value :: "real \<Rightarrow> real" where
  "f64_round_value r =
     (if r = 0 then 0
      else (let e = max (- 1022) \<lfloor>log 2 \<bar>r\<bar>\<rfloor>; q = 2 powi (e - 52)
            in of_int (round_half_even (r / q)) * q))"

definition f64_round :: "real \<Rightarrow> npfloat" where
  "f64_round r =
     (let v = f64_round_value r
      in if 2 ^ 1024 \<le> \<bar>v\<bar> then (if 0 < v then PosInf else NegInf) else Finite v)"


fun f64_neg :: "npfloat \<Rightarrow> npfloat" where
  "f64_neg (Finite a) = Finite (- a)"
| "f64_neg PosInf = NegInf"
| "f64_neg NegInf = PosInf"
| "f64_neg NaN = NaN"

fun f64_add :: "npfloat \<Rightarrow> npfloat \<Rightarrow> npfloat" where
  "f64_add (Finite a) (Finite b) = f64_round (a + b)"
| "f64_add NaN b = NaN"
| "f64_add a NaN = NaN"
| "f64_add PosInf NegInf = NaN"
| "f64_add NegInf PosInf = NaN"
| "f64_add PosInf b = PosInf"
| "f64_add a PosInf = PosInf"
| "f64_add NegInf b = NegInf"
| "f64_add a NegInf = NegInf"

definition f64_sub :: "npfloat \<Rightarrow> npfloat \<Rightarrow> npfloat" where
  "f64_sub a b = f64_add a (f64_neg b)"

fun f64_mul :: "npfloat \<Rightarrow> npfloat \<Rightarrow> npfloat" where
  "f64_mul (Finite a) (Finite b) = f64_round (a * b)"
| "f64_mul NaN b = NaN"
| "f64_mul a NaN = NaN"
| "f64_mul (Finite a) PosInf = (if a = 0 then NaN else if 0 < a then PosInf else NegInf)"
| "f64_mul (Finite a) NegInf = (if a = 0 then NaN else if 0 < a then NegInf else PosInf)"
| "f64_mul PosInf (Finite b) = (if b = 0 then NaN else if 0 < b then PosInf else NegInf)"
| "f64_mul NegInf (Finite b) = (if b = 0 then NaN else if 0 < b then NegInf else PosInf)"
| "f64_mul PosInf PosInf = PosInf"
| "f64_mul PosInf NegInf = NegInf"
| "f64_mul NegInf PosInf = NegInf"
| "f64_mul NegInf NegInf = PosInf"

text \<open>Division as NumPy does it: a zero divisor gives \<open>nan\<close> or an infinity.\<close>

fun f64_div :: "npfloat \<Rightarrow> npfloat \<Rightarrow> npfloat" where
  "f64_div (Finite a) (Finite b) = (if b = 0 then np_div a b else f64_round (a / b))"
| "f64_div NaN b = NaN"
| "f64_div a NaN = NaN"
| "f64_div (Finite a) PosInf = Finite 0"
| "f64_div (Finite a) NegInf = Finite 0"
| "f64_div PosInf (Finite b) = (if 0 \<le> b then PosInf else NegInf)"
| "f64_div NegInf (Finite b) = (if 0 \<le> b then NegInf else PosInf)"
| "f64_div a b = NaN"

fun f64_sqrt :: "npfloat \<Rightarrow> npfloat" where
  "f64_sqrt (Finite a) = (if a < 0 then NaN else f64_round (sqrt a))"
| "f64_sqrt PosInf = PosInf"
| "f64_sqrt a = NaN"




text \<open>
  \<open>closest_distance_between_segments\<close> on points whose coordinates are Python ints
  within the 64-bit range: \<open>np.array\<close> makes \<open>int64\<close> arrays of them, whose differences
  and dot products wrap around, as do the products of the \<open>int64\<close> scalars; the
  quotients, the clamped parameters and the norm are binary64.
\<close>

type_synonym IntPoint = "int \<times> int \<times> int"

definition int64 :: "int \<Rightarrow> int" where
  "int64 n = (n + 2 ^ 63) mod 2 ^ 64 - 2 ^ 63"

fun int64_sub :: "IntPoint \<Rightarrow> IntPoint \<Rightarrow> IntPoint" where
  "int64_sub (a1, a2, a3) (b1, b2, b3) = (int64 (a1 - b1), int64 (a2 - b2), int64 (a3 - b3))"

fun int64_dot :: "IntPoint \<Rightarrow> IntPoint \<Rightarrow> int" where
  "int64_dot (a1, a2, a3) (b1, b2, b3) = int64 (a1 * b1 + a2 * b2 + a3 * b3)"

definition f64_of_int :: "int \<Rightarrow> npfloat" where
  "f64_of_int n = f64_round (of_int n)"

definition closest_params_int64 ::
  "IntPoint \<Rightarrow> IntPoint \<Rightarrow> IntPoint \<Rightarrow> IntPoint \<Rightarrow> npfloat \<times> npfloat" where
  "closest_params_int64 p1 p2 q1 q2 =
     (let u = int64_sub p2 p1;
          v = int64_sub q2 q1;
          w = int64_sub p1 q1;
          a = int64_dot u u;
          b = int64_dot u v;
          c = int64_dot v v;
          d = int64_dot u w;
          e = int64_dot v w;
          D = int64 (int64 (a * c) - int64 (b * b))
      in if real_of_int D < 1 / 10 ^ 10
         then (Finite 0,
               if b > c then f64_div (f64_of_int d) (f64_of_int b)
               else f64_div (f64_of_int e) (f64_of_int c))
         else (f64_div (f64_of_int (int64 (int64 (b * e) - int64 (c * d)))) (f64_of_int D),
               f64_div (f64_of_int (int64 (int64 (a * e) - int64 (b * d)))) (f64_of_int D)))"

text \<open>
  Line 119, one coordinate of \<open>w + (sc * u) - (tc * v)\<close>, and line 120, the norm as
  the square root of the dot product.
\<close>

definition f64_dP :: "real \<Rightarrow> real \<Rightarrow> int \<Rightarrow> int \<Rightarrow> int \<Rightarrow> npfloat" where
  "f64_dP sc tc wi ui vi =
     f64_sub (f64_add (f64_of_int wi) (f64_mul (Finite sc) (f64_of_int ui)))
             (f64_mul (Finite tc) (f64_of_int vi))"

fun f64_norm :: "npfloat \<times> npfloat \<times> npfloat \<Rightarrow> npfloat" where
  "f64_norm (a1, a2, a3) =
     f64_sqrt (f64_add (f64_add (f64_mul a1 a1) (f64_mul a2 a2)) (f64_mul a3 a3))"

definition closest_distance_between_segments_int64 ::
  "IntPoint \<Rightarrow> IntPoint \<Rightarrow> IntPoint \<Rightarrow> IntPoint \<Rightarrow> npfloat" where
  "closest_distance_between_segments_int64 p1 p2 q1 q2 =
     (let u = int64_sub p2 p1;
          v = int64_sub q2 q1;
          w = int64_sub p1 q1;
          (sc0, tc0) = closest_params_int64 p1 p2 q1 q2;
          sc = clamp01 sc0;
          tc = clamp01 tc0
      in f64_norm (f64_dP sc tc (fst w) (fst u) (fst v),
                   f64_dP sc tc (fst (snd w)) (fst (snd u)) (fst (snd v)),
                   f64_dP sc tc (snd (snd w)) (snd (snd u)) (snd (snd v))))"






section \<open>The geometry kernel\<close>

lemma np_div_nonzero: "m \<noteq> 0 \<Longrightarrow> np_div n m = Finite (n / m)"
  by (simp add: np_div_def)

lemma np_dot_self_zero: "np_dot v v = 0 \<Longrightarrow> v = (0, 0, 0)"
proof -
  obtain v1 v2 v3 where v: "v = (v1, v2, v3)" by (cases v) auto
  assume "np_dot v v = 0"
  then have "v1 * v1 + v2 * v2 + v3 * v3 = 0" by (simp add: v)
  then have "v1 = 0 \<and> v2 = 0 \<and> v3 = 0"
    by (metis add_nonneg_eq_0_iff zero_le_square mult_eq_0_iff add_nonneg_nonneg)
  then show ?thesis by (simp add: v)
qed

lemma vsub_self: "vsub p p = (0, 0, 0)"
  by (cases p) simp

lemma np_dot_zero_right: "np_dot v (0, 0, 0) = 0"
  by (cases v) simp

text \<open>
  In exact arithmetic the distance of a segment to itself is 0, also when the segment is
  a single point (then the parameter along the second segment is \<open>0/0\<close>, clamped to
  1, and the direction it multiplies is the zero vector). What the source computes on
  integer coordinates is \<open>closest_distance_between_segments_int64\<close>.
\<close>

lemma exact_segment_against_itself:
  "closest_distance_between_segments p1 p2 p1 p2 = 0"
proof -
  define u where "u = vsub p2 p1"
  define c where "c = np_dot u u"
  have params: "closest_params p1 p2 p1 p2 = (Finite 0, np_div 0 c)"
    by (simp add: closest_params_def Let_def vsub_self np_dot_zero_right u_def c_def)
  show ?thesis
  proof (cases "c = 0")
    case True
    then have "u = (0, 0, 0)" unfolding c_def by (rule np_dot_self_zero)
    then show ?thesis
      by (simp add: closest_distance_between_segments_def params vsub_self u_def[symmetric])
  next
    case False
    then have "np_div 0 c = Finite 0" by (simp add: np_div_nonzero)
    then show ?thesis
      by (cases u) (simp add: closest_distance_between_segments_def params vsub_self u_def[symmetric])
  qed
qed

lemma np_dot_zero_left: "np_dot (0, 0, 0) v = 0"
  by (cases v) simp

text \<open>
  C4: whenever the second segment is a single point, the parallel branch divides
  \<open>e = 0\<close> by \<open>c = 0\<close>: the denominator of the division performed is exactly zero.
  A distance is returned all the same: that from \<open>p1\<close> to the point.
\<close>

theorem degenerate_divides_by_zero:
  "closest_params p1 p2 q q = (Finite 0, NaN) \<and>
   closest_distance_between_segments p1 p2 q q = np_norm (vsub p1 q)"
proof -
  have params: "closest_params p1 p2 q q = (Finite 0, NaN)"
    by (simp add: closest_params_def Let_def vsub_self np_dot_zero_right np_dot_zero_left
        np_div_def)
  have "closest_distance_between_segments p1 p2 q q = np_norm (vsub p1 q)"
    by (cases "vsub p1 q"; cases "vsub p2 p1")
       (simp add: closest_distance_between_segments_def params vsub_self)
  with params show ?thesis by simp
qed

lemma interpolate_position_formula:
  assumes "time wp1 \<noteq> time wp2"
  shows "interpolate_position wp1 wp2 t =
        (x wp1 + max 0 (min 1 ((t - time wp1) / (time wp2 - time wp1))) * (x wp2 - x wp1),
         y wp1 + max 0 (min 1 ((t - time wp1) / (time wp2 - time wp1))) * (y wp2 - y wp1),
         z wp1 + max 0 (min 1 ((t - time wp1) / (time wp2 - time wp1))) * (z wp2 - z wp1))"
  using assms by (simp add: interpolate_position_def np_div_nonzero Let_def)

section \<open>The conflict detector\<close>

lemma py_min_nonempty: "vs \<noteq> [] \<Longrightarrow> py_min vs = Inr (Min (set vs))"
  using Min.set_eq_fold[of "hd vs" "tl vs"] by (cases vs) simp_all

lemma py_max_nonempty: "vs \<noteq> [] \<Longrightarrow> py_max vs = Inr (Max (set vs))"
  using Max.set_eq_fold[of "hd vs" "tl vs"] by (cases vs) simp_all

lemma spatial_body_append:
  "spatial_body mw sw b i j acc = acc @ spatial_body mw sw b i j []"
  by (simp add: spatial_body_def Let_def)

lemma fold_append_concat:
  assumes "\<And>a acc. f a acc = acc @ g a"
  shows "fold f as acc = acc @ concat (map g as)"
proof (induction as arbitrary: acc)
  case Nil
  then show ?case by simp
next
  case (Cons a as)
  have "fold f (a # as) acc = fold f as (acc @ g a)"
    using assms[of a acc] by simp
  then show ?case by (simp add: Cons.IH)
qed

lemma spatial_inner_fold:
  "fold (spatial_body mw sw b i) js acc =
     acc @ concat (map (\<lambda>j. spatial_body mw sw b i j []) js)"
  by (rule fold_append_concat) (rule spatial_body_append)

lemma spatial_outer_fold:
  "fold (\<lambda>i. fold (spatial_body mw sw b i) js) is acc =
     acc @ concat (map (\<lambda>i. concat (map (\<lambda>j. spatial_body mw sw b i j []) js)) is)"
  by (rule fold_append_concat) (rule spatial_inner_fold)

lemma check_spatial_conflict_eq:
  assumes "waypoints s \<noteq> []"
  shows "check_spatial_conflict m s tw b =
           Inr (if span_outside_window (waypoints s) tw then []
                else spatial_pairs (waypoints m) (waypoints s) b)"
  using assms
  by (simp add: check_spatial_conflict_def py_min_nonempty py_max_nonempty span_outside_window_def
      spatial_pairs_def spatial_outer_fold Let_def)

lemma check_spatial_conflict_empty:
  "waypoints s = [] \<Longrightarrow> check_spatial_conflict m s tw b = Inl ValueError"
  by (simp add: check_spatial_conflict_def)

lemma check_temporal_conflict_eq:
  assumes "waypoints s \<noteq> []"
  shows "check_temporal_conflict m s tw b =
           Inr (if span_outside_window (waypoints s) tw then []
                else snd (fold (temporal_outer (waypoints m) (waypoints s) (get_drone_id s) b)
                            (linspace10 (max (tw_start tw) (Min (set (map time (waypoints s)))))
                                        (min (tw_end tw) (Max (set (map time (waypoints s))))))
                            ({}, [])))"
  using assms
  by (simp add: check_temporal_conflict_def py_min_nonempty py_max_nonempty span_outside_window_def Let_def)

lemma fold_same: "(\<And>a. a \<in> set as \<Longrightarrow> f a st = st) \<Longrightarrow> fold f as st = st"
  by (induction as) simp_all

lemma temporal_outer_single:
  "temporal_outer mw [wp] did b t st = st"
  unfolding temporal_outer_def
  by (rule fold_same) (simp add: temporal_inner_def)

text \<open>
  C3 (as amended): a schedule with a single waypoint has no segment, so it yields no
  spatial record and no temporal record either, whatever its position and time.
\<close>

theorem single_waypoint_no_records:
  assumes "waypoints s = [wp]"
  shows "check_spatial_conflict m s tw b = Inr [] \<and> check_temporal_conflict m s tw b = Inr []"
proof -
  have ne: "waypoints s \<noteq> []" using assms by simp
  have sp: "spatial_pairs (waypoints m) (waypoints s) b = []"
    by (simp add: spatial_pairs_def assms)
  have "fold (temporal_outer (waypoints m) (waypoints s) (get_drone_id s) b) ts ({}, []) = ({}, [])" for ts
    by (rule fold_same) (simp add: assms temporal_outer_single)
  then show ?thesis
    by (simp add: check_spatial_conflict_eq[OF ne] check_temporal_conflict_eq[OF ne] sp)
qed

lemma check_spatial_conflict_Inr:
  "waypoints s \<noteq> [] \<Longrightarrow> \<exists>cs. check_spatial_conflict m s tw b = Inr cs"
  by (simp add: check_spatial_conflict_eq)

lemma check_temporal_conflict_Inr:
  "waypoints s \<noteq> [] \<Longrightarrow> \<exists>cs. check_temporal_conflict m s tw b = Inr cs"
  by (simp add: check_temporal_conflict_eq)

lemma safety_loop_eq:
  assumes "\<forall>s\<in>set ss. waypoints s \<noteq> []"
  shows "safety_loop m b ss acc =
           Inr (acc @ concat (map (\<lambda>s.
                  map (tag_spatial s) (projr (check_spatial_conflict m s (time_window m) b))
                  @ map tag_temporal (projr (check_temporal_conflict m s (time_window m) b))) ss))"
  using assms
proof (induction ss arbitrary: acc)
  case Nil
  then show ?case by simp
next
  case (Cons s ss)
  then have ne: "waypoints s \<noteq> []" by simp
  obtain sp where sp: "check_spatial_conflict m s (time_window m) b = Inr sp"
    using check_spatial_conflict_Inr[OF ne] by blast
  obtain tp where tp: "check_temporal_conflict m s (time_window m) b = Inr tp"
    using check_temporal_conflict_Inr[OF ne] by blast
  from Cons.prems have rest: "\<forall>s\<in>set ss. waypoints s \<noteq> []" by simp
  show ?case
    by (simp add: sp tp Cons.IH[OF rest])
qed

lemma safety_loop_error:
  assumes "s \<in> set ss" "waypoints s = []"
  shows "safety_loop m b ss acc = Inl ValueError"
  using assms
proof (induction ss arbitrary: acc)
  case Nil
  then show ?case by simp
next
  case (Cons a ss)
  show ?case
  proof (cases "waypoints a = []")
    case True
    then show ?thesis by (simp add: check_spatial_conflict_empty)
  next
    case False
    then have "s \<in> set ss" using Cons.prems by auto
    then have "safety_loop m b ss acc' = Inl ValueError" for acc'
      using Cons.IH Cons.prems(2) by blast
    moreover obtain sp where "check_spatial_conflict m a (time_window m) b = Inr sp"
      using check_spatial_conflict_Inr[OF False] by blast
    moreover obtain tp where "check_temporal_conflict m a (time_window m) b = Inr tp"
      using check_temporal_conflict_Inr[OF False] by blast
    ultimately show ?thesis by simp
  qed
qed

lemma check_mission_safety_eq:
  assumes "\<forall>s\<in>set ss. waypoints s \<noteq> []"
  shows "check_mission_safety m ss b =
           Inr \<lparr>status = (if concat (map (\<lambda>s.
                  map (tag_spatial s) (projr (check_spatial_conflict m s (time_window m) b))
                  @ map tag_temporal (projr (check_temporal_conflict m s (time_window m) b))) ss) = []
                  then ''clear'' else ''conflict detected''),
                details = concat (map (\<lambda>s.
                  map (tag_spatial s) (projr (check_spatial_conflict m s (time_window m) b))
                  @ map tag_temporal (projr (check_temporal_conflict m s (time_window m) b))) ss)\<rparr>"
  unfolding check_mission_safety_def safety_loop_eq[OF assms] by simp

lemma fold_invariant:
  assumes "P st" "\<And>a st. P st \<Longrightarrow> P (f a st)"
  shows "P (fold f as st)"
  using assms(1)
proof (induction as arbitrary: st)
  case Nil
  then show ?case by simp
next
  case (Cons a as)
  then show ?case using assms(2) by simp
qed

lemma temporal_emit_drone_id:
  "has_drone_id did st \<Longrightarrow> has_drone_id did (temporal_emit did b t pm ps st)"
  by (simp add: has_drone_id_def temporal_emit_def Let_def)

lemma temporal_inner_drone_id:
  "has_drone_id did st \<Longrightarrow> has_drone_id did (temporal_inner sw did b t pm st)"
  unfolding temporal_inner_def
  by (rule fold_invariant) (simp_all add: temporal_emit_drone_id)

lemma temporal_outer_drone_id:
  "has_drone_id did st \<Longrightarrow> has_drone_id did (temporal_outer mw sw did b t st)"
  unfolding temporal_outer_def
  by (rule fold_invariant) (simp_all add: temporal_inner_drone_id)

lemma check_temporal_conflict_drone_id:
  assumes "check_temporal_conflict m s tw b = Inr tp" "c \<in> set tp"
  shows "map_of c ''drone_id'' = Some (PStr (get_drone_id s))"
proof (cases "waypoints s = []")
  case True
  then show ?thesis using assms(1) by (simp add: check_temporal_conflict_def)
next
  case False
  have "has_drone_id (get_drone_id s)
          (fold (temporal_outer (waypoints m) (waypoints s) (get_drone_id s) b) ts ({}, []))" for ts
    by (rule fold_invariant) (simp add: has_drone_id_def, rule temporal_outer_drone_id)
  then have "list_all (\<lambda>c. map_of c ''drone_id'' = Some (PStr (get_drone_id s))) tp"
    using assms(1) unfolding check_temporal_conflict_eq[OF False] has_drone_id_def
    by (auto split: if_splits)
  then show ?thesis using assms(2) by (simp add: list_all_iff)
qed

lemma tag_spatial_tags:
  "map_of (tag_spatial s c) ''type'' = Some (PStr ''spatial'') \<and>
   map_of (tag_spatial s c) ''drone_id'' = Some (PStr (get_drone_id s))"
  by (simp add: tag_spatial_def update_conv')

lemma tag_temporal_tags:
  "map_of (tag_temporal c) ''type'' = Some (PStr ''temporal'') \<and>
   map_of (tag_temporal c) ''drone_id'' = map_of c ''drone_id''"
  by (simp add: tag_temporal_def update_conv')



section \<open>The scenario of the specification\<close>

lemma linspace10_unfold:
  "linspace10 a b =
     [a, (b - a) / 9 + a, 2 * ((b - a) / 9) + a, 3 * ((b - a) / 9) + a,
      4 * ((b - a) / 9) + a, 5 * ((b - a) / 9) + a, 6 * ((b - a) / 9) + a,
      7 * ((b - a) / 9) + a, 8 * ((b - a) / 9) + a, b]"
proof -
  have "[0..<10] = [0, 1, 2, 3, 4, 5, 6, 7, 8, 9::nat]"
    by (simp add: upt_rec)
  then show ?thesis
    by (simp add: linspace10_def)
qed

lemma scenario_distance:
  "closest_distance_between_segments (0, 0, 0) (100, 0, 0) (0, 5, 0) (100, 5, 0) = 5"
  by (simp add: closest_distance_between_segments_def closest_params_def np_div_def)

lemma scenario_spatial:
  "spatial_pairs (waypoints scenario_mission) (waypoints scenario_other) b =
    (if 5 < b then [[(''segment_mission'', PIndex (0, 1)),
                      (''segment_schedule'', PIndex (0, 1)),
                      (''distance'', PFloat 5),
                      (''location'', PPoint (50, 0, 0)),
                      (''time_range'', PRange (0, 10))]] else [])"
  by (simp add: spatial_pairs_def scenario_mission_def scenario_other_def spatial_body_def
      position_def scenario_distance)

lemma scenario_emit:
  "temporal_emit did 4 t (p, 0, 0) (p, 5, 0) st = st"
  by (simp add: temporal_emit_def)

lemma scenario_interp_m:
  "interpolate_position \<lparr>x = 0, y = 0, z = 0, time = 0\<rparr> \<lparr>x = 100, y = 0, z = 0, time = 10\<rparr> t
    = (max 0 (min 1 (t / 10)) * 100, 0, 0)"
  by (simp add: interpolate_position_formula)

lemma scenario_interp_s:
  "interpolate_position \<lparr>x = 0, y = 5, z = 0, time = 0\<rparr> \<lparr>x = 100, y = 5, z = 0, time = 10\<rparr> t
    = (max 0 (min 1 (t / 10)) * 100, 5, 0)"
  by (simp add: interpolate_position_formula)

lemma scenario_outer:
  "temporal_outer (waypoints scenario_mission) (waypoints scenario_other) did 4 t st = st"
  by (simp add: temporal_outer_def temporal_inner_def scenario_mission_def scenario_other_def
      scenario_interp_m scenario_interp_s scenario_emit)

lemma scenario_not_outside:
  "\<not> span_outside_window (waypoints scenario_other) (time_window scenario_mission)"
  by (simp add: span_outside_window_def scenario_other_def scenario_mission_def)

lemma scenario_other_nonempty: "waypoints scenario_other \<noteq> []"
  by (simp add: scenario_other_def)

lemma scenario_temporal_4:
  "check_temporal_conflict scenario_mission scenario_other (time_window scenario_mission) 4 = Inr []"
proof -
  have "fold (temporal_outer (waypoints scenario_mission) (waypoints scenario_other) did 4) ts st = st"
    for did ts st
    by (rule fold_same) (rule scenario_outer)
  then show ?thesis
    by (simp add: check_temporal_conflict_eq[OF scenario_other_nonempty])
qed

lemma scenario_spatial_b:
  "check_spatial_conflict scenario_mission scenario_other (time_window scenario_mission) b =
     Inr (if 5 < b then [[(''segment_mission'', PIndex (0, 1)),
                      (''segment_schedule'', PIndex (0, 1)),
                      (''distance'', PFloat 5),
                      (''location'', PPoint (50, 0, 0)),
                      (''time_range'', PRange (0, 10))]] else [])"
  by (simp add: check_spatial_conflict_eq[OF scenario_other_nonempty] scenario_not_outside
      scenario_spatial)

text \<open>
  C2: in the scenario, with buffer 10 the status is \<open>conflict detected\<close> and the
  details hold a spatial record of distance 5; with buffer 4 the status is \<open>clear\<close>
  and the details are empty.
\<close>

theorem scenario_buffer_10_and_4:
  "(\<exists>r. check_mission_safety scenario_mission [scenario_other] 10 = Inr r \<and>
        status r = ''conflict detected'' \<and>
        [(''segment_mission'', PIndex (0, 1)),
         (''segment_schedule'', PIndex (0, 1)),
         (''distance'', PFloat 5),
         (''location'', PPoint (50, 0, 0)),
         (''time_range'', PRange (0, 10)),
         (''drone_id'', PStr ''other''),
         (''type'', PStr ''spatial'')] \<in> set (details r)) \<and>
   check_mission_safety scenario_mission [scenario_other] 4 =
     Inr \<lparr>status = ''clear'', details = []\<rparr>"
proof -
  have ne: "\<forall>s\<in>set [scenario_other]. waypoints s \<noteq> []"
    by (simp add: scenario_other_nonempty)
  have id: "get_drone_id scenario_other = ''other''"
    by (simp add: get_drone_id_def scenario_other_def)
  have four: "check_mission_safety scenario_mission [scenario_other] 4 =
     Inr \<lparr>status = ''clear'', details = []\<rparr>"
    by (simp add: check_mission_safety_eq[OF ne] scenario_spatial_b scenario_temporal_4)
  have ten: "\<exists>r. check_mission_safety scenario_mission [scenario_other] 10 = Inr r \<and>
        status r = ''conflict detected'' \<and>
        [(''segment_mission'', PIndex (0, 1)),
         (''segment_schedule'', PIndex (0, 1)),
         (''distance'', PFloat 5),
         (''location'', PPoint (50, 0, 0)),
         (''time_range'', PRange (0, 10)),
         (''drone_id'', PStr ''other''),
         (''type'', PStr ''spatial'')] \<in> set (details r)"
    by (simp add: check_mission_safety_eq[OF ne] scenario_spatial_b tag_spatial_def id)
  from ten four show ?thesis by blast
qed

section \<open>Single waypoints, disjoint spans and the window\<close>

theorem single_waypoint_no_records_witness:
  "waypoints hover_other = [\<lparr>x = 50, y = 0, z = 0, time = 5\<rparr>] \<and>
   check_spatial_conflict scenario_mission hover_other (time_window scenario_mission) 10 = Inr [] \<and>
   check_temporal_conflict scenario_mission hover_other (time_window scenario_mission) 10 = Inr []"
proof -
  have w: "waypoints hover_other = [\<lparr>x = 50, y = 0, z = 0, time = 5\<rparr>]"
    by (simp add: hover_other_def)
  show ?thesis
    using w single_waypoint_no_records[OF w, of scenario_mission "time_window scenario_mission" 10]
    by simp
qed

text \<open>
  C3 as stated fails: the hovering drone's time lies in the window and the mission is at
  distance 0 from it at that time, yet no temporal record is produced.
\<close>

theorem hover_temporal_counterexample:
  "tw_start (time_window scenario_mission) \<le> time (hd (waypoints hover_other)) \<and>
   time (hd (waypoints hover_other)) \<le> tw_end (time_window scenario_mission) \<and>
   np_norm (vsub (interpolate_position (waypoints scenario_mission ! 0)
                    (waypoints scenario_mission ! 1) (time (hd (waypoints hover_other))))
                 (position (hd (waypoints hover_other)))) < 10 \<and>
   check_temporal_conflict scenario_mission hover_other (time_window scenario_mission) 10 = Inr []"
proof -
  have "fold (temporal_outer (waypoints scenario_mission) (waypoints hover_other) did 10) ts st = st"
    for did ts st
    by (rule fold_same) (simp add: hover_other_def temporal_outer_single)
  moreover have "waypoints hover_other \<noteq> []"
    by (simp add: hover_other_def)
  ultimately have "check_temporal_conflict scenario_mission hover_other (time_window scenario_mission) 10 = Inr []"
    by (simp add: check_temporal_conflict_eq)
  then show ?thesis
    by (simp add: scenario_mission_def hover_other_def position_def interpolate_position_formula)
qed

text \<open>
  C6: when the time span of every schedule lies wholly before or wholly after the
  mission's window, the result is \<open>clear\<close> with no details, whatever the positions.
\<close>

theorem disjoint_time_spans_clear:
  assumes "\<forall>s\<in>set schedules. waypoints s \<noteq> [] \<and>
             span_outside_window (waypoints s) (time_window m)"
  shows "check_mission_safety m schedules b = Inr \<lparr>status = ''clear'', details = []\<rparr>"
proof -
  have ne: "\<forall>s\<in>set schedules. waypoints s \<noteq> []" using assms by blast
  have "map (tag_spatial s) (projr (check_spatial_conflict m s (time_window m) b))
        @ map tag_temporal (projr (check_temporal_conflict m s (time_window m) b)) = []"
    if "s \<in> set schedules" for s
    using that assms by (simp add: check_spatial_conflict_eq check_temporal_conflict_eq)
  then have "concat (map (\<lambda>s.
        map (tag_spatial s) (projr (check_spatial_conflict m s (time_window m) b))
        @ map tag_temporal (projr (check_temporal_conflict m s (time_window m) b))) schedules) = []"
    by simp
  then show ?thesis
    unfolding check_mission_safety_eq[OF ne] by simp
qed

theorem disjoint_time_spans_clear_witness:
  "waypoints late_other \<noteq> [] \<and>
   span_outside_window (waypoints late_other) (time_window scenario_mission) \<and>
   check_mission_safety scenario_mission [late_other, late_other] 1000 =
     Inr \<lparr>status = ''clear'', details = []\<rparr>"
proof -
  have h: "\<forall>s\<in>set [late_other, late_other]. waypoints s \<noteq> [] \<and>
      span_outside_window (waypoints s) (time_window scenario_mission)"
    by (simp add: late_other_def scenario_mission_def span_outside_window_def)
  show ?thesis
    using h disjoint_time_spans_clear[OF h, of 1000] by simp
qed






section \<open>Monotonicity in the safety buffer\<close>

lemma fold_related:
  assumes "R st st'" "\<And>a st st'. R st st' \<Longrightarrow> R (f a st) (g a st')"
  shows "R (fold f as st) (fold g as st')"
  using assms(1)
proof (induction as arbitrary: st st')
  case Nil
  then show ?case by simp
next
  case (Cons a as)
  then show ?case using assms(2) by simp
qed

lemma fst_temporal_emit:
  "fst (temporal_emit did b t pm ps st) =
     (if np_norm (vsub pm ps) < b
      then insert (round2 (fst pm), round2 (fst (snd pm)), round2 (snd (snd pm)), round2 t) (fst st)
      else fst st)"
  by (auto simp add: temporal_emit_def Let_def)

lemma temporal_emit_seen_mono:
  assumes "b \<le> b'" "fst st \<subseteq> fst st'"
  shows "fst (temporal_emit did b t pm ps st) \<subseteq> fst (temporal_emit did b' t pm ps st')"
  using assms unfolding fst_temporal_emit by auto

lemma temporal_inner_seen_mono:
  assumes "b \<le> b'" "fst st \<subseteq> fst st'"
  shows "fst (temporal_inner sw did b t pm st) \<subseteq> fst (temporal_inner sw did b' t pm st')"
  unfolding temporal_inner_def
  by (rule fold_related[where R = "\<lambda>st st'. fst st \<subseteq> fst st'"])
     (simp_all add: assms temporal_emit_seen_mono)

lemma temporal_outer_seen_mono:
  assumes "b \<le> b'" "fst st \<subseteq> fst st'"
  shows "fst (temporal_outer mw sw did b t st) \<subseteq> fst (temporal_outer mw sw did b' t st')"
  unfolding temporal_outer_def
  by (rule fold_related[where R = "\<lambda>st st'. fst st \<subseteq> fst st'"])
     (simp_all add: assms temporal_inner_seen_mono)

lemma temporal_steps_seen_mono:
  assumes "b \<le> b'"
  shows "fst (fold (temporal_outer mw sw did b) ts ({}, []))
           \<subseteq> fst (fold (temporal_outer mw sw did b') ts ({}, []))"
  by (rule fold_related[where R = "\<lambda>st st'. fst st \<subseteq> fst st'"])
     (simp_all add: assms temporal_outer_seen_mono)

lemma conflict_key_emitted:
  "conflict_key [(''time'', PFloat t), (''location'', PPoint pm),
                 (''distance'', PFloat d), (''drone_id'', PStr did)] =
     Some (round2 (fst pm), round2 (fst (snd pm)), round2 (snd (snd pm)), round2 t)"
  by (simp add: conflict_key_def)

lemma temporal_emit_keys:
  "keys_recorded st \<Longrightarrow> keys_recorded (temporal_emit did b t pm ps st)"
  by (simp add: keys_recorded_def temporal_emit_def Let_def conflict_key_emitted)

lemma temporal_inner_keys:
  "keys_recorded st \<Longrightarrow> keys_recorded (temporal_inner sw did b t pm st)"
  unfolding temporal_inner_def
  by (rule fold_invariant) (simp_all add: temporal_emit_keys)

lemma temporal_outer_keys:
  "keys_recorded st \<Longrightarrow> keys_recorded (temporal_outer mw sw did b t st)"
  unfolding temporal_outer_def
  by (rule fold_invariant) (simp_all add: temporal_inner_keys)

lemma temporal_steps_keys:
  "keys_recorded (fold (temporal_outer mw sw did b) ts ({}, []))"
  by (rule fold_invariant) (simp add: keys_recorded_def, rule temporal_outer_keys)

lemma check_temporal_conflict_key_mono:
  assumes "b \<le> b'"
    and "check_temporal_conflict m s tw b = Inr tp"
    and "check_temporal_conflict m s tw b' = Inr tp'"
    and "c \<in> set tp"
  shows "\<exists>c'\<in>set tp'. conflict_key c' = conflict_key c"
proof (cases "waypoints s = []")
  case True
  then show ?thesis using assms(2) by (simp add: check_temporal_conflict_def)
next
  case False
  show ?thesis
  proof (cases "span_outside_window (waypoints s) tw")
    case True
    then show ?thesis using assms(2,4) by (simp add: check_temporal_conflict_eq[OF False])
  next
    case inside: False
    define ts where "ts = linspace10 (max (tw_start tw) (Min (set (map time (waypoints s)))))
                                     (min (tw_end tw) (Max (set (map time (waypoints s)))))"
    define st where "st = fold (temporal_outer (waypoints m) (waypoints s) (get_drone_id s) b) ts ({}, [])"
    define st' where "st' = fold (temporal_outer (waypoints m) (waypoints s) (get_drone_id s) b') ts ({}, [])"
    have tp: "tp = snd st" and tp': "tp' = snd st'"
      using assms(2,3) inside
      by (simp_all add: check_temporal_conflict_eq[OF False] st_def st'_def ts_def)
    have k: "Some ` fst st = conflict_key ` set (snd st)"
      using temporal_steps_keys[of "waypoints m" "waypoints s" "get_drone_id s" b ts]
      by (simp add: keys_recorded_def st_def)
    have k': "Some ` fst st' = conflict_key ` set (snd st')"
      using temporal_steps_keys[of "waypoints m" "waypoints s" "get_drone_id s" b' ts]
      by (simp add: keys_recorded_def st'_def)
    have sub: "fst st \<subseteq> fst st'"
      unfolding st_def st'_def by (rule temporal_steps_seen_mono[OF assms(1)])
    from assms(4) tp have "conflict_key c \<in> conflict_key ` set (snd st)" by blast
    with k have "conflict_key c \<in> Some ` fst st" by simp
    with sub have "conflict_key c \<in> Some ` fst st'" by blast
    with k' have "conflict_key c \<in> conflict_key ` set (snd st')" by simp
    then show ?thesis using tp' by force
  qed
qed

lemma spatial_body_mono:
  assumes "b \<le> b'"
  shows "set (spatial_body mw sw b i j []) \<subseteq> set (spatial_body mw sw b' i j [])"
  using assms by (auto simp add: spatial_body_def Let_def)

lemma spatial_pairs_mono:
  assumes "b \<le> b'"
  shows "set (spatial_pairs mw sw b) \<subseteq> set (spatial_pairs mw sw b')"
  unfolding spatial_pairs_def using spatial_body_mono[OF assms] by fastforce

lemma check_spatial_conflict_mono:
  assumes "b \<le> b'"
    and "check_spatial_conflict m s tw b = Inr sp"
    and "check_spatial_conflict m s tw b' = Inr sp'"
  shows "set sp \<subseteq> set sp'"
proof (cases "waypoints s = []")
  case True
  then show ?thesis using assms(2) by (simp add: check_spatial_conflict_def)
next
  case False
  show ?thesis
    using assms(2,3) spatial_pairs_mono[OF assms(1)]
    by (auto simp add: check_spatial_conflict_eq[OF False] split: if_splits)
qed

lemma conflict_key_tag_temporal: "conflict_key (tag_temporal c) = conflict_key c"
  by (simp add: conflict_key_def tag_temporal_def update_conv')

lemma schedule_records_mono:
  assumes le: "b \<le> b'" and ne: "waypoints s \<noteq> []"
    and c: "c \<in> set (map (tag_spatial s) (projr (check_spatial_conflict m s tw b))
                      @ map tag_temporal (projr (check_temporal_conflict m s tw b)))"
  shows "(map_of c ''type'' = Some (PStr ''spatial'') \<and>
          c \<in> set (map (tag_spatial s) (projr (check_spatial_conflict m s tw b'))
                      @ map tag_temporal (projr (check_temporal_conflict m s tw b')))) \<or>
         (map_of c ''type'' = Some (PStr ''temporal'') \<and>
          (\<exists>c'\<in>set (map (tag_spatial s) (projr (check_spatial_conflict m s tw b'))
                      @ map tag_temporal (projr (check_temporal_conflict m s tw b'))).
             map_of c' ''type'' = Some (PStr ''temporal'') \<and>
             map_of c' ''drone_id'' = map_of c ''drone_id'' \<and>
             conflict_key c' = conflict_key c))"
proof -
  obtain sp where sp: "check_spatial_conflict m s tw b = Inr sp"
    using check_spatial_conflict_Inr[OF ne] by blast
  obtain sp' where sp': "check_spatial_conflict m s tw b' = Inr sp'"
    using check_spatial_conflict_Inr[OF ne] by blast
  obtain tp where tp: "check_temporal_conflict m s tw b = Inr tp"
    using check_temporal_conflict_Inr[OF ne] by blast
  obtain tp' where tp': "check_temporal_conflict m s tw b' = Inr tp'"
    using check_temporal_conflict_Inr[OF ne] by blast
  from c consider (spatial) c0 where "c0 \<in> set sp" "c = tag_spatial s c0"
    | (temporal) c0 where "c0 \<in> set tp" "c = tag_temporal c0"
    by (auto simp add: sp tp)
  then show ?thesis
  proof cases
    case spatial
    then have "c0 \<in> set sp'"
      using check_spatial_conflict_mono[OF le sp sp'] by blast
    then show ?thesis
      using spatial by (simp add: sp' tp' tag_spatial_tags)
  next
    case temporal
    obtain c0' where c0': "c0' \<in> set tp'" "conflict_key c0' = conflict_key c0"
      using check_temporal_conflict_key_mono[OF le tp tp' temporal(1)] by blast
    have "map_of (tag_temporal c0') ''drone_id'' = map_of (tag_temporal c0) ''drone_id''"
      using check_temporal_conflict_drone_id[OF tp temporal(1)]
        check_temporal_conflict_drone_id[OF tp' c0'(1)]
      by (simp add: tag_temporal_tags)
    then have "tag_temporal c0' \<in> set (map (tag_spatial s) sp' @ map tag_temporal tp') \<and>
       map_of (tag_temporal c0') ''type'' = Some (PStr ''temporal'') \<and>
       map_of (tag_temporal c0') ''drone_id'' = map_of c ''drone_id'' \<and>
       conflict_key (tag_temporal c0') = conflict_key c"
      using c0' temporal by (simp add: tag_temporal_tags conflict_key_tag_temporal)
    then show ?thesis
      using temporal(2) unfolding sp' tp' by (metis sum.sel(2) tag_temporal_tags)
  qed
qed

text \<open>
  C9 (as amended): for buffers \<open>b \<le> b'\<close>, every spatial record produced with \<open>b\<close> is
  produced with \<open>b'\<close>; every temporal record produced with \<open>b\<close> has, with \<open>b'\<close>, a
  temporal record of the same drone and the same deduplication key; and a conflict
  detected with \<open>b\<close> is detected with \<open>b'\<close>.
\<close>

theorem buffer_monotone:
  assumes "b \<le> b'" and "\<forall>s\<in>set schedules. waypoints s \<noteq> []"
  shows "\<exists>r r'. check_mission_safety m schedules b = Inr r \<and>
           check_mission_safety m schedules b' = Inr r' \<and>
           (\<forall>c\<in>set (details r).
              map_of c ''type'' = Some (PStr ''spatial'') \<longrightarrow> c \<in> set (details r')) \<and>
           (\<forall>c\<in>set (details r).
              map_of c ''type'' = Some (PStr ''temporal'') \<longrightarrow>
              (\<exists>c'\<in>set (details r').
                 map_of c' ''type'' = Some (PStr ''temporal'') \<and>
                 map_of c' ''drone_id'' = map_of c ''drone_id'' \<and>
                 conflict_key c' = conflict_key c)) \<and>
           (status r = ''conflict detected'' \<longrightarrow> status r' = ''conflict detected'')"
proof -
  define recs where "recs = (\<lambda>b s.
      map (tag_spatial s) (projr (check_spatial_conflict m s (time_window m) b))
      @ map tag_temporal (projr (check_temporal_conflict m s (time_window m) b)))"
  define D where "D = (\<lambda>b. concat (map (recs b) schedules))"
  have r: "check_mission_safety m schedules b =
             Inr \<lparr>status = (if D b = [] then ''clear'' else ''conflict detected''), details = D b\<rparr>"
    for b
    unfolding D_def recs_def by (rule check_mission_safety_eq[OF assms(2)])
  have step: "(map_of c ''type'' = Some (PStr ''spatial'') \<and> c \<in> set (D b')) \<or>
         (map_of c ''type'' = Some (PStr ''temporal'') \<and>
          (\<exists>c'\<in>set (D b').
             map_of c' ''type'' = Some (PStr ''temporal'') \<and>
             map_of c' ''drone_id'' = map_of c ''drone_id'' \<and>
             conflict_key c' = conflict_key c))"
    if "c \<in> set (D b)" for c
  proof -
    from that obtain s where s: "s \<in> set schedules" "c \<in> set (recs b s)"
      by (auto simp add: D_def)
    then have ne: "waypoints s \<noteq> []" using assms(2) by blast
    have sub: "set (recs b' s) \<subseteq> set (D b')"
      using s(1) by (auto simp add: D_def)
    from schedule_records_mono[OF assms(1) ne s(2)[unfolded recs_def]]
    show ?thesis
      using sub unfolding recs_def by blast
  qed
  have spatial: "\<forall>c\<in>set (D b). map_of c ''type'' = Some (PStr ''spatial'') \<longrightarrow> c \<in> set (D b')"
    using step by fastforce
  have temporal: "\<forall>c\<in>set (D b). map_of c ''type'' = Some (PStr ''temporal'') \<longrightarrow>
              (\<exists>c'\<in>set (D b').
                 map_of c' ''type'' = Some (PStr ''temporal'') \<and>
                 map_of c' ''drone_id'' = map_of c ''drone_id'' \<and>
                 conflict_key c' = conflict_key c)"
    using step by fastforce
  have nonempty: "D b \<noteq> [] \<Longrightarrow> D b' \<noteq> []"
  proof -
    assume "D b \<noteq> []"
    then obtain c where "c \<in> set (D b)" by (cases "D b") auto
    from step[OF this] show ?thesis by auto
  qed
  show ?thesis
    unfolding r using spatial temporal nonempty by simp
qed

lemma closing_nonempty: "waypoints closing_other \<noteq> []"
  by (simp add: closing_other_def)

lemma closing_inside:
  "\<not> span_outside_window (waypoints closing_other) (time_window hover_mission)"
  by (simp add: span_outside_window_def closing_other_def hover_mission_def)

lemma closing_distance:
  "closest_distance_between_segments (0, 0, 0) (0, 0, 0) (0, 0, 9) (0, 0, 0) = 0"
  by (simp add: closest_distance_between_segments_def closest_params_def np_div_def)

lemma closing_spatial:
  "0 < b \<Longrightarrow>
   check_spatial_conflict hover_mission closing_other (time_window hover_mission) b =
     Inr [[(''segment_mission'', PIndex (0, 1)),
           (''segment_schedule'', PIndex (0, 1)),
           (''distance'', PFloat 0),
           (''location'', PPoint (0, 0, 0)),
           (''time_range'', PRange (0, 9 / 1000))]]"
  by (simp add: check_spatial_conflict_eq[OF closing_nonempty] closing_inside spatial_pairs_def)
     (simp add: hover_mission_def closing_other_def spatial_body_def position_def closing_distance)

lemma closing_steps:
  "linspace10 (max (tw_start (time_window hover_mission)) (Min (set (map time (waypoints closing_other)))))
              (min (tw_end (time_window hover_mission)) (Max (set (map time (waypoints closing_other)))))
   = [0, 1 / 1000, 2 / 1000, 3 / 1000, 4 / 1000, 5 / 1000, 6 / 1000, 7 / 1000, 8 / 1000, 9 / 1000]"
  by (simp add: hover_mission_def closing_other_def linspace10_unfold)

lemma closing_outer:
  assumes "0 \<le> t" "t \<le> 9 / 1000"
  shows "temporal_outer (waypoints hover_mission) (waypoints closing_other) did b t st =
           temporal_emit did b t (0, 0, 0) (0, 0, 9 - 1000 * t) st"
proof -
  have "t * 1000 / 9 \<le> 1" "0 \<le> t * 1000 / 9" using assms by simp_all
  then have m: "max 0 (min 1 (t * 1000 / 9)) = t * 1000 / 9" by simp
  show ?thesis
    using assms
    by (simp add: temporal_outer_def temporal_inner_def hover_mission_def closing_other_def
        interpolate_position_formula m)
qed

lemma round2_0: "round2 0 = 0"
  by (simp add: round2_def round_half_even_def)

lemma closing_sample:
  assumes "0 \<le> t" "t \<le> 9 / 1000"
  shows "temporal_outer (waypoints hover_mission) (waypoints closing_other) did b t st =
           (if 9 - 1000 * t < b
            then (if (0, 0, 0, round2 t) \<notin> fst st
                  then (insert (0, 0, 0, round2 t) (fst st),
                        snd st @ [[(''time'', PFloat t), (''location'', PPoint (0, 0, 0)),
                                   (''distance'', PFloat (9 - 1000 * t)),
                                   (''drone_id'', PStr did)]])
                  else st)
            else st)"
proof -
  have "\<bar>1000 * t - 9\<bar> = 9 - 1000 * t" using assms by simp
  then show ?thesis
    unfolding closing_outer[OF assms] by (simp add: temporal_emit_def round2_0)
qed

lemma round2_6: "round2 (3 / 500) = 1 / 100"
  by (simp add: round2_def round_half_even_def)
lemma round2_7: "round2 (7 / 1000) = 1 / 100"
  by (simp add: round2_def round_half_even_def)
lemma round2_8: "round2 (1 / 125) = 1 / 100"
  by (simp add: round2_def round_half_even_def)
lemma round2_9: "round2 (9 / 1000) = 1 / 100"
  by (simp add: round2_def round_half_even_def)

lemma closing_id: "get_drone_id closing_other = ''closing''"
  by (simp add: get_drone_id_def closing_other_def)

lemma closing_temporal_1:
  "check_temporal_conflict hover_mission closing_other (time_window hover_mission) 1 =
     Inr [[(''time'', PFloat (9 / 1000)), (''location'', PPoint (0, 0, 0)),
           (''distance'', PFloat 0), (''drone_id'', PStr ''closing'')]]"
  unfolding check_temporal_conflict_eq[OF closing_nonempty] closing_steps closing_id
  by (simp add: closing_inside closing_sample)

lemma closing_temporal_4:
  "check_temporal_conflict hover_mission closing_other (time_window hover_mission) 4 =
     Inr [[(''time'', PFloat (6 / 1000)), (''location'', PPoint (0, 0, 0)),
           (''distance'', PFloat 3), (''drone_id'', PStr ''closing'')]]"
  unfolding check_temporal_conflict_eq[OF closing_nonempty] closing_steps closing_id
  by (simp add: closing_inside closing_sample round2_6 round2_7 round2_8 round2_9)

theorem buffer_monotone_witness:
  "(1::real) \<le> 4 \<and> waypoints closing_other \<noteq> [] \<and>
   (\<exists>r r'. check_mission_safety hover_mission [closing_other] 1 = Inr r \<and>
           check_mission_safety hover_mission [closing_other] 4 = Inr r' \<and>
           (\<forall>c\<in>set (details r).
              map_of c ''type'' = Some (PStr ''spatial'') \<longrightarrow> c \<in> set (details r')) \<and>
           (\<forall>c\<in>set (details r).
              map_of c ''type'' = Some (PStr ''temporal'') \<longrightarrow>
              (\<exists>c'\<in>set (details r').
                 map_of c' ''type'' = Some (PStr ''temporal'') \<and>
                 map_of c' ''drone_id'' = map_of c ''drone_id'' \<and>
                 conflict_key c' = conflict_key c)) \<and>
           (status r = ''conflict detected'' \<longrightarrow> status r' = ''conflict detected''))"
proof -
  have le: "(1::real) \<le> 4" by simp
  have ne: "\<forall>s\<in>set [closing_other]. waypoints s \<noteq> []"
    by (simp add: closing_nonempty)
  show ?thesis
    using le closing_nonempty buffer_monotone[OF le ne, of hover_mission] by simp
qed

text \<open>
  C9 as stated fails: with buffer 1 the sample at 9 ms gives a temporal record; with
  buffer 4 the sample at 6 ms, whose time rounds to the same 0.01, is recorded first and
  the record of the sample at 9 ms is suppressed.
\<close>

theorem buffer_monotone_counterexample:
  "(1::real) \<le> 4 \<and>
   check_mission_safety hover_mission [closing_other] 1 =
     Inr \<lparr>status = ''conflict detected'',
          details = [[(''segment_mission'', PIndex (0, 1)),
                      (''segment_schedule'', PIndex (0, 1)),
                      (''distance'', PFloat 0),
                      (''location'', PPoint (0, 0, 0)),
                      (''time_range'', PRange (0, 9 / 1000)),
                      (''drone_id'', PStr ''closing''),
                      (''type'', PStr ''spatial'')],
                     [(''time'', PFloat (9 / 1000)), (''location'', PPoint (0, 0, 0)),
                      (''distance'', PFloat 0), (''drone_id'', PStr ''closing''),
                      (''type'', PStr ''temporal'')]]\<rparr> \<and>
   check_mission_safety hover_mission [closing_other] 4 =
     Inr \<lparr>status = ''conflict detected'',
          details = [[(''segment_mission'', PIndex (0, 1)),
                      (''segment_schedule'', PIndex (0, 1)),
                      (''distance'', PFloat 0),
                      (''location'', PPoint (0, 0, 0)),
                      (''time_range'', PRange (0, 9 / 1000)),
                      (''drone_id'', PStr ''closing''),
                      (''type'', PStr ''spatial'')],
                     [(''time'', PFloat (6 / 1000)), (''location'', PPoint (0, 0, 0)),
                      (''distance'', PFloat 3), (''drone_id'', PStr ''closing''),
                      (''type'', PStr ''temporal'')]]\<rparr> \<and>
   [(''time'', PFloat (9 / 1000)), (''location'', PPoint (0, 0, 0)),
    (''distance'', PFloat 0), (''drone_id'', PStr ''closing''),
    (''type'', PStr ''temporal'')]
     \<in> set (details (projr (check_mission_safety hover_mission [closing_other] 1))) \<and>
   [(''time'', PFloat (9 / 1000)), (''location'', PPoint (0, 0, 0)),
    (''distance'', PFloat 0), (''drone_id'', PStr ''closing''),
    (''type'', PStr ''temporal'')]
     \<notin> set (details (projr (check_mission_safety hover_mission [closing_other] 4)))"
proof -
  have ne: "\<forall>s\<in>set [closing_other]. waypoints s \<noteq> []"
    by (simp add: closing_nonempty)
  have one: "check_mission_safety hover_mission [closing_other] 1 =
     Inr \<lparr>status = ''conflict detected'',
          details = [[(''segment_mission'', PIndex (0, 1)),
                      (''segment_schedule'', PIndex (0, 1)),
                      (''distance'', PFloat 0),
                      (''location'', PPoint (0, 0, 0)),
                      (''time_range'', PRange (0, 9 / 1000)),
                      (''drone_id'', PStr ''closing''),
                      (''type'', PStr ''spatial'')],
                     [(''time'', PFloat (9 / 1000)), (''location'', PPoint (0, 0, 0)),
                      (''distance'', PFloat 0), (''drone_id'', PStr ''closing''),
                      (''type'', PStr ''temporal'')]]\<rparr>"
    by (simp add: check_mission_safety_eq[OF ne] closing_spatial closing_temporal_1
        tag_spatial_def tag_temporal_def closing_id)
  have four: "check_mission_safety hover_mission [closing_other] 4 =
     Inr \<lparr>status = ''conflict detected'',
          details = [[(''segment_mission'', PIndex (0, 1)),
                      (''segment_schedule'', PIndex (0, 1)),
                      (''distance'', PFloat 0),
                      (''location'', PPoint (0, 0, 0)),
                      (''time_range'', PRange (0, 9 / 1000)),
                      (''drone_id'', PStr ''closing''),
                      (''type'', PStr ''spatial'')],
                     [(''time'', PFloat (6 / 1000)), (''location'', PPoint (0, 0, 0)),
                      (''distance'', PFloat 3), (''drone_id'', PStr ''closing''),
                      (''type'', PStr ''temporal'')]]\<rparr>"
    by (simp add: check_mission_safety_eq[OF ne] closing_spatial closing_temporal_4
        tag_spatial_def tag_temporal_def closing_id)
  show ?thesis
    unfolding one four by simp
qed

section \<open>First match and the loops over segments\<close>


























section \<open>The kernel in machine arithmetic\<close>

lemma floor_log2_eq:
  assumes "2 powi e \<le> \<bar>r\<bar>" "\<bar>r\<bar> < 2 powi (e + 1)"
  shows "\<lfloor>log 2 \<bar>r\<bar>\<rfloor> = e"
proof -
  have pos: "0 < \<bar>r\<bar>"
    using assms(1) by (smt (verit) zero_less_power_int)
  have "2 powr (real_of_int e) \<le> \<bar>r\<bar> \<and> \<bar>r\<bar> < 2 powr (real_of_int e + 1)"
    using assms by (simp add: powr_real_of_int' power_int_add powr_add)
  then show ?thesis
    using floor_log_eq_powr_iff[of "\<bar>r\<bar>" 2 e] pos by simp
qed

lemma f64_round_value_eval:
  assumes "2 powi e \<le> \<bar>r\<bar>" "\<bar>r\<bar> < 2 powi (e + 1)" "- 1022 \<le> e"
  shows "f64_round_value r = of_int (round_half_even (r / 2 powi (e - 52))) * 2 powi (e - 52)"
proof -
  have "r \<noteq> 0" using assms(1) by (smt (verit) zero_less_power_int abs_zero)
  then show ?thesis
    using assms(3) by (simp add: f64_round_value_def floor_log2_eq[OF assms(1,2)] max_def Let_def)
qed

lemma f64_round_0: "f64_round 0 = Finite 0"
  by (simp add: f64_round_def f64_round_value_def)



lemma two_32: "f64_round 4294967296 = Finite 4294967296"
  using f64_round_value_eval[of 32 4294967296]
  by (simp add: f64_round_def round_half_even_def power_int_minus)

lemma two_32_neg: "f64_round (- 4294967296) = Finite (- 4294967296)"
  using f64_round_value_eval[of 32 "- 4294967296"]
  by (simp add: f64_round_def round_half_even_def power_int_minus)

lemma two_64: "f64_round 18446744073709551616 = Finite 18446744073709551616"
  using f64_round_value_eval[of 64 18446744073709551616]
  by (simp add: f64_round_def round_half_even_def power_int_minus)

lemma sqrt_two_64: "sqrt 18446744073709551616 = 4294967296"
  by (rule real_sqrt_unique) simp_all

text \<open>
  C7: on integer coordinates the squared length \<open>2 ^ 64\<close> of the segment from the
  origin to \<open>(2 ^ 32, 0, 0)\<close> wraps to 0, the parameter along the second segment is
  \<open>0/0\<close>, clamped to 1, and the distance of the segment to itself comes out as its
  length \<open>2 ^ 32\<close>, not 0.
\<close>

theorem int64_wrap_segment_against_itself:
  "closest_distance_between_segments_int64 (0, 0, 0) (4294967296, 0, 0) (0, 0, 0) (4294967296, 0, 0)
     = Finite 4294967296"
proof -
  have w: "int64 4294967296 = 4294967296" "int64 0 = 0" "int64 18446744073709551616 = 0"
    by (simp_all add: int64_def)
  have params: "closest_params_int64 (0, 0, 0) (4294967296, 0, 0) (0, 0, 0) (4294967296, 0, 0)
                  = (Finite 0, NaN)"
    by (simp add: closest_params_int64_def w f64_of_int_def f64_round_0 np_div_def)
  show ?thesis
    by (simp add: closest_distance_between_segments_int64_def params w f64_dP_def f64_of_int_def
        f64_sub_def f64_round_0 two_32 two_32_neg two_64 sqrt_two_64)
qed

































end
